theory Spec2Isabelle
  imports Main "HOL-Library.Sublist"
begin

section \<open>Values and errors\<close>

text \<open>
  The values that travel through \<^verbatim>\<open>src/alpy/api.py\<close> are decoded JSON documents:
  Python's \<^verbatim>\<open>None\<close>, \<^verbatim>\<open>bool\<close>, \<^verbatim>\<open>int\<close>, \<^verbatim>\<open>str\<close>, \<^verbatim>\<open>list\<close> and \<^verbatim>\<open>dict\<close>.
  A \<^verbatim>\<open>dict\<close> is an association list read with \<open>map_of\<close>; the list keeps the
  insertion order of the keys. Numbers with a fraction (Python's \<^verbatim>\<open>float\<close>) are
  outside the model. A \<open>char\<close> stands for one code point below 256.
\<close>

datatype json =
    JNull
  | JBool bool
  | JInt int
  | JStr string
  | JArr "json list"
  | JObj "(string \<times> json) list"

text \<open>
  Every exception the module can raise is a value. \<open>APIError\<close> is the class of
  lines 10-17: \<open>description\<close> is the argument handed to \<^verbatim>\<open>Exception.__init__\<close>
  and \<open>APIError_error\<close> is the attribute \<^verbatim>\<open>_error\<close>. \<open>HTTPError\<close> is what
  \<^verbatim>\<open>raise_for_status\<close> raises, \<open>JSONDecodeError\<close> what \<^verbatim>\<open>resp.json()\<close>
  raises on a body that is not JSON, and \<open>RequestException\<close> a failure of
  \<^verbatim>\<open>session.request\<close> itself.
\<close>

datatype error =
    APIError (description: json) (APIError_error: json)
  | HTTPError int
  | JSONDecodeError
  | RequestException string
  | TypeError
  | KeyError string
  | AttributeError string

type_synonym 'a result = "error + 'a"

subsection \<open>Python operators on decoded values\<close>

text \<open>\<^verbatim>\<open>needle in s\<close> on two strings: \<open>needle\<close> occurs in \<open>s\<close> as a substring.\<close>

fun str_contains :: "string \<Rightarrow> string \<Rightarrow> bool" where
  "str_contains needle [] = (needle = [])"
| "str_contains needle (c # cs) = (prefix needle (c # cs) \<or> str_contains needle cs)"

text \<open>
  \<^verbatim>\<open>k in v\<close> for a string \<open>k\<close>: key membership on a dict, element membership on a
  list, substring on a string, and \<^verbatim>\<open>TypeError\<close> on a value that is not iterable.
\<close>

fun py_contains :: "string \<Rightarrow> json \<Rightarrow> bool result" where
  "py_contains k (JObj kvs) = Inr (map_of kvs k \<noteq> None)"
| "py_contains k (JArr xs) = Inr (JStr k \<in> set xs)"
| "py_contains k (JStr s) = Inr (str_contains k s)"
| "py_contains k v = Inl TypeError"

text \<open>
  \<^verbatim>\<open>v[k]\<close> for a string \<open>k\<close>: the value stored in a dict, \<^verbatim>\<open>KeyError\<close> when the
  key is missing, \<^verbatim>\<open>TypeError\<close> on every other value (a list or a string takes
  integer indices only, the rest is not subscriptable).
\<close>

fun py_getitem :: "json \<Rightarrow> string \<Rightarrow> json result" where
  "py_getitem (JObj kvs) k = (case map_of kvs k of None \<Rightarrow> Inl (KeyError k) | Some v \<Rightarrow> Inr v)"
| "py_getitem v k = Inl TypeError"

text \<open>
  \<^verbatim>\<open>for o in v\<close>: the elements of a list, the keys of a dict, the characters of a
  string, \<^verbatim>\<open>TypeError\<close> otherwise.
\<close>

fun py_iter :: "json \<Rightarrow> json list result" where
  "py_iter (JArr xs) = Inr xs"
| "py_iter (JObj kvs) = Inr (map (\<lambda>kv. JStr (fst kv)) kvs)"
| "py_iter (JStr s) = Inr (map (\<lambda>c. JStr [c]) s)"
| "py_iter v = Inl TypeError"

text \<open>\<^verbatim>\<open>str.upper\<close>, on the letters \<^verbatim>\<open>a\<close> to \<^verbatim>\<open>z\<close>; every other character is kept.\<close>

definition upper_char :: "char \<Rightarrow> char" where
  "upper_char c =
     (case map_of (zip ''abcdefghijklmnopqrstuvwxyz'' ''ABCDEFGHIJKLMNOPQRSTUVWXYZ'') c of
        None \<Rightarrow> c
      | Some u \<Rightarrow> u)"

definition upper :: "string \<Rightarrow> string" where
  "upper s = map upper_char s"

section \<open>Transport\<close>

text \<open>
  A response of the \<^verbatim>\<open>requests\<close> library, as far as the module reads it:
  the status code and what \<^verbatim>\<open>resp.json()\<close> makes of the body (\<open>None\<close> when the
  body is not JSON).
\<close>

record response =
  status_code :: int
  json_body :: "json option"

text \<open>
  \<^verbatim>\<open>Response.raise_for_status\<close> of \<^verbatim>\<open>requests\<close>: it raises \<^verbatim>\<open>HTTPError\<close> for a
  client error (400 to 499) and for a server error (500 to 599), and returns otherwise.
\<close>

definition raise_for_status :: "response \<Rightarrow> unit result" where
  "raise_for_status resp =
     (if 400 \<le> status_code resp \<and> status_code resp < 600
      then Inl (HTTPError (status_code resp)) else Inr ())"

definition resp_json :: "response \<Rightarrow> json result" where
  "resp_json resp = (case json_body resp of None \<Rightarrow> Inl JSONDecodeError | Some j \<Rightarrow> Inr j)"

text \<open>
  The keyword arguments \<^verbatim>\<open>opts\<close> of lines 32-38 are a dict from option name to
  option value; the call \<^verbatim>\<open>session.request(method, url, **opts)\<close> is the record
  \<open>http_request\<close>.
\<close>

datatype optval = Headers "(string \<times> string) list" | Data json

record http_request =
  req_method :: string
  req_url :: string
  req_opts :: "string \<rightharpoonup> optval"

text \<open>
  Class \<^verbatim>\<open>API\<close> (lines 20-25): the fields \<^verbatim>\<open>_key\<close>, \<^verbatim>\<open>_base_url\<close> and
  \<^verbatim>\<open>_session\<close>. The session is the function that performs one HTTP call: it returns
  a response or fails.
\<close>

record API =
  API_key :: string
  API_base_url :: string
  API_session :: "http_request \<Rightarrow> response result"

text \<open>\<^verbatim>\<open>APIError.__init__\<close> (lines 11-13) and the property \<^verbatim>\<open>code\<close> (lines 15-17).\<close>

definition APIError_init :: "json \<Rightarrow> error result" where
  "APIError_init err =
     (case py_getitem err ''message'' of
        Inl e \<Rightarrow> Inl e
      | Inr m \<Rightarrow> Inr (APIError m err))"

definition APIError_code :: "error \<Rightarrow> json result" where
  "APIError_code exc = py_getitem (APIError_error exc) ''code''"

text \<open>Lines 28-38 of \<^verbatim>\<open>API._request\<close>: the call that is handed to the session.\<close>

definition API_prepare :: "API \<Rightarrow> string \<Rightarrow> string \<Rightarrow> json \<Rightarrow> http_request" where
  "API_prepare self method path data =
     (let url = API_base_url self @ path;
          headers = [(''X-API-KEY'', API_key self)];
          opts = [''headers'' \<mapsto> Headers headers];
          opts' = (if upper method = ''GET''
                   then opts(''params'' \<mapsto> Data data)
                   else opts(''json'' \<mapsto> Data data))
      in \<lparr>req_method = method, req_url = url, req_opts = opts'\<rparr>)"

text \<open>
  Lines 40-46 of \<^verbatim>\<open>API._request\<close>: the handler of \<^verbatim>\<open>HTTPError\<close> decodes the
  body, raises \<^verbatim>\<open>APIError\<close> when \<^verbatim>\<open>'code' in error\<close>, and otherwise leaves the
  \<^verbatim>\<open>try\<close> statement, so that control reaches \<^verbatim>\<open>return resp.json()\<close>.
\<close>

definition API_respond :: "response \<Rightarrow> json result" where
  "API_respond resp =
     (case raise_for_status resp of
        Inl exc \<Rightarrow>
          (case resp_json resp of
             Inl e \<Rightarrow> Inl e
           | Inr err \<Rightarrow>
               (case py_contains ''code'' err of
                  Inl e \<Rightarrow> Inl e
                | Inr True \<Rightarrow> (case APIError_init err of Inl e \<Rightarrow> Inl e | Inr exc' \<Rightarrow> Inl exc')
                | Inr False \<Rightarrow> resp_json resp))
      | Inr u \<Rightarrow> resp_json resp)"

definition API_request :: "API \<Rightarrow> string \<Rightarrow> string \<Rightarrow> json \<Rightarrow> json result" where
  "API_request self method path data =
     (case API_session self (API_prepare self method path data) of
        Inl e \<Rightarrow> Inl e
      | Inr resp \<Rightarrow> API_respond resp)"

definition API_get :: "API \<Rightarrow> string \<Rightarrow> json \<Rightarrow> json result" where
  "API_get self path data = API_request self ''GET'' path data"

definition API_post :: "API \<Rightarrow> string \<Rightarrow> json \<Rightarrow> json result" where
  "API_post self path data = API_request self ''POST'' path data"

definition API_patch :: "API \<Rightarrow> string \<Rightarrow> json \<Rightarrow> json result" where
  "API_patch self path data = API_request self ''PATCH'' path data"

definition API_delete :: "API \<Rightarrow> string \<Rightarrow> json \<Rightarrow> json result" where
  "API_delete self path data = API_request self ''DELETE'' path data"

section \<open>String formatting\<close>

text \<open>
  \<^verbatim>\<open>'{}'.format(x)\<close> inserts \<^verbatim>\<open>str(x)\<close>. For a string that is the string
  itself; for \<^verbatim>\<open>None\<close>, a \<^verbatim>\<open>bool\<close> and an \<^verbatim>\<open>int\<close> it is the literal; a
  list or a dict is printed with the \<^verbatim>\<open>repr\<close> of its parts.
\<close>

definition digit_char :: "nat \<Rightarrow> char" where
  "digit_char n = ''0123456789abcdef'' ! (n mod 16)"

fun str_nat :: "nat \<Rightarrow> string" where
  "str_nat n = (if n < 10 then [digit_char n] else str_nat (n div 10) @ [digit_char (n mod 10)])"

definition str_int :: "int \<Rightarrow> string" where
  "str_int i = (if i < 0 then CHR ''-'' # str_nat (nat (- i)) else str_nat (nat i))"

text \<open>
  \<^verbatim>\<open>repr\<close> of a string: single quotes, unless the string holds a single quote and
  no double quote; the quote character and the backslash are escaped, tab, newline
  and carriage return are written \<^verbatim>\<open>\t\<close>, \<^verbatim>\<open>\n\<close>, \<^verbatim>\<open>\r\<close>, and a code point
  that is not printable is written \<^verbatim>\<open>\xhh\<close>.
\<close>

definition quote_of :: "string \<Rightarrow> char" where
  "quote_of s = (if CHR 0x27 \<in> set s \<and> CHR 0x22 \<notin> set s then CHR 0x22 else CHR 0x27)"

definition printable :: "char \<Rightarrow> bool" where
  "printable c =
     (let n = (of_char c :: nat)
      in 0x20 \<le> n \<and> n \<noteq> 0x7F \<and> \<not> (0x80 \<le> n \<and> n \<le> 0xA0) \<and> n \<noteq> 0xAD)"

definition repr_char :: "char \<Rightarrow> char \<Rightarrow> string" where
  "repr_char q c =
     (if c = q \<or> c = CHR 0x5C then [CHR 0x5C, c]
      else if c = CHR 0x09 then [CHR 0x5C, CHR ''t'']
      else if c = CHR 0x0A then [CHR 0x5C, CHR ''n'']
      else if c = CHR 0x0D then [CHR 0x5C, CHR ''r'']
      else if printable c then [c]
      else [CHR 0x5C, CHR ''x'', digit_char (of_char c div 16), digit_char (of_char c mod 16)])"

definition repr_str :: "string \<Rightarrow> string" where
  "repr_str s = (let q = quote_of s in [q] @ concat (map (repr_char q) s) @ [q])"

fun join :: "string \<Rightarrow> string list \<Rightarrow> string" where
  "join sep [] = []"
| "join sep [x] = x"
| "join sep (x # y # ys) = x @ sep @ join sep (y # ys)"

fun py_repr :: "json \<Rightarrow> string" where
  "py_repr JNull = ''None''"
| "py_repr (JBool b) = (if b then ''True'' else ''False'')"
| "py_repr (JInt i) = str_int i"
| "py_repr (JStr s) = repr_str s"
| "py_repr (JArr xs) = ''['' @ join '', '' (map py_repr xs) @ '']''"
| "py_repr (JObj kvs) =
     ''{'' @ join '', '' (map (\<lambda>kv. repr_str (fst kv) @ '': '' @ py_repr (snd kv)) kvs) @ ''}''"

fun py_str :: "json \<Rightarrow> string" where
  "py_str (JStr s) = s"
| "py_str v = py_repr v"

section \<open>Entity\<close>

text \<open>
  The compiled pattern of line 7, \<^verbatim>\<open>\d{4}-\d{2}-\d{2}T\<close>, is a sequence of atoms:
  a digit or a literal character. \<^verbatim>\<open>pattern.match(val)\<close> matches at the start of
  the string and raises \<^verbatim>\<open>TypeError\<close> when \<open>val\<close> is not a string.
\<close>

datatype atom = Digit | Lit char

definition is_digit :: "char \<Rightarrow> bool" where
  "is_digit c = (c \<in> set ''0123456789'')"

fun re_match :: "atom list \<Rightarrow> string \<Rightarrow> bool" where
  "re_match [] s = True"
| "re_match (a # as) [] = False"
| "re_match (Digit # as) (c # cs) = (is_digit c \<and> re_match as cs)"
| "re_match (Lit l # as) (c # cs) = (c = l \<and> re_match as cs)"

definition ISO8601YMD :: "atom list" where
  "ISO8601YMD =
     [Digit, Digit, Digit, Digit, Lit CHR ''-'', Digit, Digit, Lit CHR ''-'',
      Digit, Digit, Lit CHR ''T'']"

fun ISO8601YMD_match :: "json \<Rightarrow> bool result" where
  "ISO8601YMD_match (JStr s) = Inr (re_match ISO8601YMD s)"
| "ISO8601YMD_match v = Inl TypeError"

text \<open>
  An instance of \<^verbatim>\<open>Entity\<close> or of one of its subclasses \<^verbatim>\<open>Order\<close> and
  \<^verbatim>\<open>Position\<close>: its class and the attribute \<^verbatim>\<open>_obj\<close> (lines 66-68, 153-158).
\<close>

record Entity =
  Entity_class :: string
  Entity_obj :: json

definition Order :: "json \<Rightarrow> Entity" where
  "Order obj = \<lparr>Entity_class = ''Order'', Entity_obj = obj\<rparr>"

definition Position :: "json \<Rightarrow> Entity" where
  "Position obj = \<lparr>Entity_class = ''Position'', Entity_obj = obj\<rparr>"

text \<open>
  What an attribute access yields: a field of the record as it is, a field decoded by
  \<^verbatim>\<open>dateutil.parser.parse\<close>, an attribute stored on the instance by \<^verbatim>\<open>__init__\<close>
  (\<open>Instance\<close> for a decoded value, \<open>ApiRef\<close> for the client), a method bound to the
  instance, or an attribute that comes with every Python object.
\<close>

datatype 'ts attr =
    Raw json
  | Timestamp 'ts
  | Instance json
  | ApiRef API
  | Method string
  | Inherited string

text \<open>
  The names defined by Python's base class \<^verbatim>\<open>object\<close> (\<^verbatim>\<open>__getstate__\<close> since
  Python 3.11), and the names that the proxy returned by \<^verbatim>\<open>super()\<close> has of its own.
  \<^verbatim>\<open>getattr(super(), key)\<close> (line 77) finds exactly these, and raises
  \<^verbatim>\<open>AttributeError\<close> naming \<open>key\<close> for every other name.
\<close>

definition object_attrs :: "string list" where
  "object_attrs =
     [''__class__'', ''__delattr__'', ''__dir__'', ''__doc__'', ''__eq__'', ''__format__'',
      ''__ge__'', ''__getattribute__'', ''__getstate__'', ''__gt__'', ''__hash__'',
      ''__init__'', ''__init_subclass__'', ''__le__'', ''__lt__'', ''__ne__'', ''__new__'',
      ''__reduce__'', ''__reduce_ex__'', ''__repr__'', ''__setattr__'', ''__sizeof__'',
      ''__str__'', ''__subclasshook__'']"

definition super_attrs :: "string list" where
  "super_attrs = [''__get__'', ''__self__'', ''__self_class__'', ''__thisclass__'']"

definition super_getattr :: "string \<Rightarrow> 'ts attr result" where
  "super_getattr k =
     (if k \<in> set object_attrs \<or> k \<in> set super_attrs
      then Inr (Inherited k) else Inl (AttributeError k))"

text \<open>
  \<^verbatim>\<open>Entity.__getattr__\<close> (lines 70-77). \<open>parse\<close> is \<^verbatim>\<open>dateutil.parser.parse\<close>:
  it returns the parsed instant or fails. The conjunction of line 73 evaluates
  \<^verbatim>\<open>ISO8601YMD.match(val)\<close> only when the name ends with \<^verbatim>\<open>_at\<close>.
\<close>

definition Entity_getattr ::
    "(string \<Rightarrow> 'ts result) \<Rightarrow> 'e Entity_scheme \<Rightarrow> string \<Rightarrow> 'ts attr result" where
  "Entity_getattr parse self k =
     (case py_contains k (Entity_obj self) of
        Inl e \<Rightarrow> Inl e
      | Inr True \<Rightarrow>
          (case py_getitem (Entity_obj self) k of
             Inl e \<Rightarrow> Inl e
           | Inr val \<Rightarrow>
               if suffix ''_at'' k then
                 (case ISO8601YMD_match val of
                    Inl e \<Rightarrow> Inl e
                  | Inr True \<Rightarrow>
                      (case val of
                         JStr s \<Rightarrow> (case parse s of Inl e \<Rightarrow> Inl e | Inr t \<Rightarrow> Inr (Timestamp t))
                       | _ \<Rightarrow> Inl TypeError)
                  | Inr False \<Rightarrow> Inr (Raw val))
               else Inr (Raw val))
      | Inr False \<Rightarrow> super_getattr k)"

text \<open>
  Python looks a name up on the instance and on its class before it calls
  \<^verbatim>\<open>__getattr__\<close>. An \<^verbatim>\<open>Entity\<close> stores \<^verbatim>\<open>_obj\<close>; its class defines
  \<^verbatim>\<open>__init__\<close> and \<^verbatim>\<open>__getattr__\<close>; a class written in Python also carries
  \<^verbatim>\<open>__dict__\<close>, \<^verbatim>\<open>__module__\<close> and \<^verbatim>\<open>__weakref__\<close> (and, in recent
  versions, \<^verbatim>\<open>__firstlineno__\<close> and \<^verbatim>\<open>__static_attributes__\<close>), and inherits the
  names of \<^verbatim>\<open>object\<close>.
\<close>

definition Entity_methods :: "string list" where
  "Entity_methods = [''__init__'', ''__getattr__'']"

definition class_attrs :: "string list" where
  "class_attrs =
     [''__dict__'', ''__module__'', ''__weakref__'', ''__firstlineno__'',
      ''__static_attributes__'']"

definition Entity_lookup :: "'e Entity_scheme \<Rightarrow> string \<Rightarrow> 'ts attr option" where
  "Entity_lookup self k =
     (if k = ''_obj'' then Some (Instance (Entity_obj self))
      else if k \<in> set Entity_methods then Some (Method k)
      else if k \<in> set class_attrs \<or> k \<in> set object_attrs then Some (Inherited k)
      else None)"

definition Entity_getattribute ::
    "(string \<Rightarrow> 'ts result) \<Rightarrow> 'e Entity_scheme \<Rightarrow> string \<Rightarrow> 'ts attr result" where
  "Entity_getattribute parse self k =
     (case Entity_lookup self k of
        Some a \<Rightarrow> Inr a
      | None \<Rightarrow> Entity_getattr parse self k)"

section \<open>Resource client\<close>

text \<open>
  Class \<^verbatim>\<open>Account\<close> (lines 80-85) extends \<^verbatim>\<open>Entity\<close> with \<^verbatim>\<open>_api\<close> and
  \<^verbatim>\<open>_account_id\<close>; the constructor reads \<^verbatim>\<open>obj['id']\<close> and fails where that
  fails.
\<close>

record Account = Entity +
  Account_api :: API
  Account_id :: json

definition Account_init :: "json \<Rightarrow> API \<Rightarrow> Account result" where
  "Account_init obj api =
     (case py_getitem obj ''id'' of
        Inl e \<Rightarrow> Inl e
      | Inr i \<Rightarrow>
          Inr \<lparr>Entity_class = ''Account'', Entity_obj = obj, Account_api = api, Account_id = i\<rparr>)"

text \<open>
  A list comprehension \<^verbatim>\<open>[f(o) for o in xs]\<close> whose body may raise: the elements
  are built from left to right and the first exception ends the loop.
\<close>

fun comprehension :: "('a \<Rightarrow> 'b result) \<Rightarrow> 'a list \<Rightarrow> 'b list result" where
  "comprehension f [] = Inr []"
| "comprehension f (x # xs) =
     (case f x of
        Inl e \<Rightarrow> Inl e
      | Inr y \<Rightarrow> (case comprehension f xs of Inl e \<Rightarrow> Inl e | Inr ys \<Rightarrow> Inr (y # ys)))"

text \<open>\<^verbatim>\<open>API.list_accounts\<close> (lines 60-63).\<close>

definition API_list_accounts :: "API \<Rightarrow> Account list result" where
  "API_list_accounts self =
     (case API_request self ''GET'' ''/api/v1/accounts'' JNull of
        Inl e \<Rightarrow> Inl e
      | Inr resp \<Rightarrow>
          (case py_iter resp of
             Inl e \<Rightarrow> Inl e
           | Inr os \<Rightarrow> comprehension (\<lambda>x. Account_init x self) os))"

text \<open>
  \<^verbatim>\<open>Account._fullpath\<close> (lines 87-88). The keyword argument \<^verbatim>\<open>v\<close> is optional
  and defaults to the string \<^verbatim>\<open>'1'\<close>.
\<close>

definition Account_fullpath :: "Account \<Rightarrow> json \<Rightarrow> json option \<Rightarrow> string" where
  "Account_fullpath self path v =
     ''/api/v'' @ py_str (case v of None \<Rightarrow> JStr ''1'' | Some x \<Rightarrow> x)
       @ ''/accounts/'' @ py_str (Account_id self) @ py_str path"

text \<open>\<^verbatim>\<open>Account.get\<close>, \<^verbatim>\<open>Account.post\<close> and \<^verbatim>\<open>Account.delete\<close> (lines 90-100).\<close>

definition Account_get :: "Account \<Rightarrow> json \<Rightarrow> json \<Rightarrow> json result" where
  "Account_get self path data =
     (let fullpath = Account_fullpath self path None
      in API_get (Account_api self) fullpath data)"

definition Account_post :: "Account \<Rightarrow> json \<Rightarrow> json \<Rightarrow> json result" where
  "Account_post self path data =
     (let fullpath = Account_fullpath self path None
      in API_post (Account_api self) fullpath data)"

definition Account_delete :: "Account \<Rightarrow> json \<Rightarrow> json \<Rightarrow> json result" where
  "Account_delete self path data =
     (let fullpath = Account_fullpath self path None
      in API_delete (Account_api self) fullpath data)"

text \<open>\<^verbatim>\<open>Account.list_orders\<close> (lines 102-105).\<close>

definition list_orders :: "Account \<Rightarrow> Entity list result" where
  "list_orders self =
     (case Account_get self (JStr ''/orders'') JNull of
        Inl e \<Rightarrow> Inl e
      | Inr resp \<Rightarrow>
          (case py_iter resp of
             Inl e \<Rightarrow> Inl e
           | Inr os \<Rightarrow> comprehension (\<lambda>x. Inr (Order x)) os))"

text \<open>
  \<^verbatim>\<open>Account.create_order\<close> (lines 107-121). The three last arguments are optional
  and default to \<^verbatim>\<open>None\<close>; \<open>None\<close> here is an argument that the caller left out.
\<close>

definition create_order_data ::
    "json \<Rightarrow> json \<Rightarrow> json \<Rightarrow> json \<Rightarrow> json \<Rightarrow> json option \<Rightarrow> json option \<Rightarrow> json option \<Rightarrow> json" where
  "create_order_data assert_id shares side type timeinforce limit_price stop_price
       client_order_id =
     JObj [(''assert_id'', assert_id),
           (''shares'', shares),
           (''side'', side),
           (''type'', type),
           (''timeinforce'', timeinforce),
           (''limit_price'', case limit_price of None \<Rightarrow> JNull | Some x \<Rightarrow> x),
           (''stop_price'', case stop_price of None \<Rightarrow> JNull | Some x \<Rightarrow> x),
           (''client_order_id'', case client_order_id of None \<Rightarrow> JNull | Some x \<Rightarrow> x)]"

definition create_order ::
    "Account \<Rightarrow> json \<Rightarrow> json \<Rightarrow> json \<Rightarrow> json \<Rightarrow> json \<Rightarrow> json option \<Rightarrow> json option \<Rightarrow> json option
       \<Rightarrow> Entity result" where
  "create_order self assert_id shares side type timeinforce limit_price stop_price
       client_order_id =
     (let data = create_order_data assert_id shares side type timeinforce limit_price
                   stop_price client_order_id
      in case Account_post self (JStr ''/orders'') data of
           Inl e \<Rightarrow> Inl e
         | Inr resp \<Rightarrow> Inr (Order resp))"

text \<open>\<^verbatim>\<open>Account.get_order\<close> (lines 123-128).\<close>

definition get_order_path :: "Account \<Rightarrow> json \<Rightarrow> string" where
  "get_order_path self order_id =
     ''/api/v1/'' @ py_str (Account_id self) @ ''/orders/'' @ py_str order_id"

definition get_order :: "Account \<Rightarrow> json \<Rightarrow> Entity result" where
  "get_order self order_id =
     (case API_get (Account_api self) (get_order_path self order_id) JNull of
        Inl e \<Rightarrow> Inl e
      | Inr resp \<Rightarrow> Inr (Order resp))"

text \<open>\<^verbatim>\<open>Account.get_order_by_client_order_id\<close> (lines 130-136).\<close>

definition get_order_by_client_order_id :: "Account \<Rightarrow> json \<Rightarrow> Entity result" where
  "get_order_by_client_order_id self client_order_id =
     (case Account_get self (JStr ''/orders'') (JObj [(''client_order_id'', client_order_id)]) of
        Inl e \<Rightarrow> Inl e
      | Inr resp \<Rightarrow> Inr (Order resp))"

text \<open>\<^verbatim>\<open>Account.delete_order\<close> (lines 138-140): the response is dropped.\<close>

definition delete_order :: "Account \<Rightarrow> json \<Rightarrow> unit result" where
  "delete_order self order_id =
     (case Account_delete self (JStr (''/orders/'' @ py_str order_id)) JNull of
        Inl e \<Rightarrow> Inl e
      | Inr resp \<Rightarrow> Inr ())"

text \<open>\<^verbatim>\<open>Account.list_positions\<close> and \<^verbatim>\<open>Account.get_position\<close> (lines 142-150).\<close>

definition list_positions :: "Account \<Rightarrow> Entity list result" where
  "list_positions self =
     (case Account_get self (JStr ''/positions'') JNull of
        Inl e \<Rightarrow> Inl e
      | Inr resp \<Rightarrow>
          (case py_iter resp of
             Inl e \<Rightarrow> Inl e
           | Inr os \<Rightarrow> comprehension (\<lambda>x. Inr (Position x)) os))"

definition get_position :: "Account \<Rightarrow> json \<Rightarrow> Entity result" where
  "get_position self asset_id =
     (case Account_get self (JStr (''/positions/'' @ py_str asset_id)) JNull of
        Inl e \<Rightarrow> Inl e
      | Inr resp \<Rightarrow> Inr (Position resp))"

text \<open>
  Attribute access on an \<^verbatim>\<open>Account\<close>: the instance stores \<^verbatim>\<open>_obj\<close>, \<^verbatim>\<open>_api\<close>
  and \<^verbatim>\<open>_account_id\<close>; the class defines the methods of lines 82-150 and inherits
  those of \<^verbatim>\<open>Entity\<close>; \<^verbatim>\<open>__getattr__\<close> is called for every other name.
\<close>

definition Account_methods :: "string list" where
  "Account_methods =
     [''__init__'', ''_fullpath'', ''get'', ''post'', ''delete'', ''list_orders'',
      ''create_order'', ''get_order'', ''get_order_by_client_order_id'', ''delete_order'',
      ''list_positions'', ''get_position'']"

definition Account_lookup :: "Account \<Rightarrow> string \<Rightarrow> 'ts attr option" where
  "Account_lookup self k =
     (if k = ''_obj'' then Some (Instance (Entity_obj self))
      else if k = ''_api'' then Some (ApiRef (Account_api self))
      else if k = ''_account_id'' then Some (Instance (Account_id self))
      else if k \<in> set Account_methods then Some (Method k)
      else Entity_lookup self k)"

definition Account_getattribute ::
    "(string \<Rightarrow> 'ts result) \<Rightarrow> Account \<Rightarrow> string \<Rightarrow> 'ts attr result" where
  "Account_getattribute parse self k =
     (case Account_lookup self k of
        Some a \<Rightarrow> Inr a
      | None \<Rightarrow> Entity_getattr parse self k)"

text \<open>An element that \<^verbatim>\<open>Account(o, self)\<close> accepts: \<^verbatim>\<open>o['id']\<close> does not raise.\<close>

definition has_id :: "json \<Rightarrow> bool" where
  "has_id x = (case py_getitem x ''id'' of Inl e \<Rightarrow> False | Inr i \<Rightarrow> True)"

section \<open>Fixtures\<close>

text \<open>
  A client whose session answers every call with one fixed response, and a parser that
  returns the text it is given; both serve the examples below.
\<close>

definition stub_api :: "response \<Rightarrow> API" where
  "stub_api resp =
     \<lparr>API_key = ''secret'', API_base_url = ''https://api.alpaca.markets'',
      API_session = (\<lambda>req. Inr resp)\<rparr>"

definition stub_parse :: "string \<Rightarrow> string result" where
  "stub_parse s = Inr s"

text \<open>
  A session that answers every call with status 200 and a description of the call it
  received: the method, the URL, and the options \<^verbatim>\<open>params\<close> and \<^verbatim>\<open>json\<close>
  (the string \<^verbatim>\<open>absent\<close> for an option that was not set).
\<close>

definition echo_opt :: "optval option \<Rightarrow> json" where
  "echo_opt v = (case v of Some (Data d) \<Rightarrow> d | _ \<Rightarrow> JStr ''absent'')"

definition echo_session :: "http_request \<Rightarrow> response result" where
  "echo_session req =
     Inr \<lparr>status_code = 200,
          json_body = Some (JObj [(''method'', JStr (req_method req)),
                                  (''url'', JStr (req_url req)),
                                  (''params'', echo_opt (req_opts req ''params'')),
                                  (''json'', echo_opt (req_opts req ''json''))])\<rparr>"

definition echo_api :: API where
  "echo_api =
     \<lparr>API_key = ''secret'', API_base_url = ''https://api.alpaca.markets'',
      API_session = echo_session\<rparr>"

definition echo_account :: Account where
  "echo_account =
     \<lparr>Entity_class = ''Account'', Entity_obj = JObj [(''id'', JStr ''acct123'')],
      Account_api = echo_api, Account_id = JStr ''acct123''\<rparr>"

text \<open>An account whose record holds fields named like attributes of the wrapper.\<close>

definition shadowed_account :: Account where
  "shadowed_account =
     \<lparr>Entity_class = ''Account'',
      Entity_obj = JObj [(''id'', JStr ''a1''), (''get'', JStr ''x''), (''_obj'', JInt 1)],
      Account_api = echo_api, Account_id = JStr ''a1''\<rparr>"

section \<open>Transport: what is sent\<close>

lemma upper_get: "upper ''get'' = ''GET''"
  by (simp add: upper_def upper_char_def)

lemma upper_GET: "upper ''GET'' = ''GET''"
  by (simp add: upper_def upper_char_def)

lemma upper_POST: "upper ''POST'' \<noteq> ''GET''"
  by (simp add: upper_def upper_char_def)

lemma API_prepare_GET:
  "upper method = ''GET'' \<Longrightarrow>
   API_prepare self method path data =
     \<lparr>req_method = method, req_url = API_base_url self @ path,
      req_opts = [''headers'' \<mapsto> Headers [(''X-API-KEY'', API_key self)],
                  ''params'' \<mapsto> Data data]\<rparr>"
  by (simp add: API_prepare_def)

lemma API_prepare_other:
  "upper method \<noteq> ''GET'' \<Longrightarrow>
   API_prepare self method path data =
     \<lparr>req_method = method, req_url = API_base_url self @ path,
      req_opts = [''headers'' \<mapsto> Headers [(''X-API-KEY'', API_key self)],
                  ''json'' \<mapsto> Data data]\<rparr>"
  by (simp add: API_prepare_def)

text \<open>
  C5. The call that \<^verbatim>\<open>_request\<close> hands to the session carries \<open>data\<close> under
  \<^verbatim>\<open>params\<close> and has no \<^verbatim>\<open>json\<close> option when the upper-cased method is
  \<^verbatim>\<open>GET\<close>; for every other method it carries \<open>data\<close>, whole, under \<^verbatim>\<open>json\<close>
  and has no \<^verbatim>\<open>params\<close> option. No option other than \<^verbatim>\<open>headers\<close>,
  \<^verbatim>\<open>params\<close> and \<^verbatim>\<open>json\<close> is ever set, and the result of \<^verbatim>\<open>_request\<close>
  depends on the session through this one call only.
\<close>

theorem request_data_placement:
  "(upper method = ''GET'' \<longrightarrow>
      req_opts (API_prepare self method path data) ''params'' = Some (Data data) \<and>
      req_opts (API_prepare self method path data) ''json'' = None) \<and>
   (upper method \<noteq> ''GET'' \<longrightarrow>
      req_opts (API_prepare self method path data) ''json'' = Some (Data data) \<and>
      req_opts (API_prepare self method path data) ''params'' = None) \<and>
   dom (req_opts (API_prepare self method path data)) \<subseteq> {''headers'', ''params'', ''json''} \<and>
   API_request self method path data =
     (case API_session self (API_prepare self method path data) of
        Inl e \<Rightarrow> Inl e
      | Inr resp \<Rightarrow> API_respond resp)"
  by (cases "upper method = ''GET''")
     (simp_all add: API_prepare_GET API_prepare_other API_request_def)

theorem request_data_placement_witness:
  "upper ''get'' = ''GET'' \<and>
   req_opts (API_prepare echo_api ''get'' ''/api/v1/accounts''
       (JObj [(''client_order_id'', JStr ''c1'')])) ''params''
     = Some (Data (JObj [(''client_order_id'', JStr ''c1'')])) \<and>
   req_opts (API_prepare echo_api ''get'' ''/api/v1/accounts''
       (JObj [(''client_order_id'', JStr ''c1'')])) ''json'' = None \<and>
   upper ''POST'' \<noteq> ''GET'' \<and>
   req_opts (API_prepare echo_api ''POST'' ''/api/v1/accounts''
       (JObj [(''shares'', JInt 5)])) ''json'' = Some (Data (JObj [(''shares'', JInt 5)])) \<and>
   req_opts (API_prepare echo_api ''POST'' ''/api/v1/accounts''
       (JObj [(''shares'', JInt 5)])) ''params'' = None"
  using request_data_placement
          [of "''get''" echo_api "''/api/v1/accounts''"
              "JObj [(''client_order_id'', JStr ''c1'')]"]
        request_data_placement
          [of "''POST''" echo_api "''/api/v1/accounts''" "JObj [(''shares'', JInt 5)]"]
        upper_get upper_POST
  by simp

section \<open>Transport: error translation\<close>

lemma API_request_stub: "API_request (stub_api resp) method path data = API_respond resp"
  by (simp add: API_request_def stub_api_def)

text \<open>
  The handler of lines 42-45 never lets the \<^verbatim>\<open>HTTPError\<close> out: whatever the
  response, \<^verbatim>\<open>_request\<close> does not fail with it.
\<close>

lemma API_respond_never_HTTPError: "API_respond resp \<noteq> Inl (HTTPError s)"
proof (cases "json_body resp")
  case None
  then show ?thesis
    by (simp add: API_respond_def resp_json_def split: sum.splits)
next
  case (Some err)
  have init: "APIError_init err \<noteq> Inr (HTTPError s)" "APIError_init err \<noteq> Inl (HTTPError s)"
    by (cases err; simp add: APIError_init_def split: option.splits)+
  have cont: "py_contains ''code'' err \<noteq> Inl (HTTPError s)"
    by (cases err) simp_all
  from Some init cont show ?thesis
    by (auto simp: API_respond_def resp_json_def split: sum.splits bool.splits)
qed

text \<open>
  An error status with a body that decodes to an object without \<^verbatim>\<open>code\<close>: the
  decoded body is returned as the result of the call.
\<close>

lemma API_respond_no_code:
  assumes "400 \<le> status_code resp" and "status_code resp < 600"
    and "json_body resp = Some (JObj kvs)" and "map_of kvs ''code'' = None"
  shows "API_respond resp = Inr (JObj kvs)"
  using assms by (simp add: API_respond_def raise_for_status_def resp_json_def)

text \<open>An error status with a body that is not JSON: the decoding error is raised.\<close>

lemma API_respond_not_json:
  assumes "400 \<le> status_code resp" and "status_code resp < 600" and "json_body resp = None"
  shows "API_respond resp = Inl JSONDecodeError"
  using assms by (simp add: API_respond_def raise_for_status_def resp_json_def)

text \<open>
  C1. On a response with status 500 whose body is the JSON object
  \<^verbatim>\<open>{"message": "oops"}\<close>, \<^verbatim>\<open>_request\<close> raises nothing and returns the body; on
  a response with status 500 whose body is not JSON it raises the decoding error of
  \<^verbatim>\<open>resp.json()\<close>.
\<close>

theorem request_returns_error_body:
  "API_request
     (stub_api \<lparr>status_code = 500, json_body = Some (JObj [(''message'', JStr ''oops'')])\<rparr>)
     ''GET'' ''/api/v1/accounts'' JNull
     = Inr (JObj [(''message'', JStr ''oops'')]) \<and>
   API_request (stub_api \<lparr>status_code = 500, json_body = None\<rparr>)
     ''GET'' ''/api/v1/accounts'' JNull
     = Inl JSONDecodeError"
  by (simp add: API_request_stub API_respond_no_code API_respond_not_json)

text \<open>
  C2. When the session answers with an error status (400 to 599) and a body that
  decodes to an object holding both \<^verbatim>\<open>code\<close> and \<^verbatim>\<open>message\<close>,
  \<^verbatim>\<open>_request\<close> fails with an \<^verbatim>\<open>APIError\<close> whose description is the
  \<^verbatim>\<open>message\<close> and whose property \<^verbatim>\<open>code\<close> is the \<^verbatim>\<open>code\<close> of the body.
\<close>

theorem request_domain_error:
  assumes "API_session self (API_prepare self method path data) = Inr resp"
    and "400 \<le> status_code resp" and "status_code resp < 600"
    and "json_body resp = Some (JObj kvs)"
    and "map_of kvs ''code'' = Some c"
    and "map_of kvs ''message'' = Some m"
  shows "API_request self method path data = Inl (APIError m (JObj kvs)) \<and>
         description (APIError m (JObj kvs)) = m \<and>
         APIError_code (APIError m (JObj kvs)) = Inr c"
  using assms
  by (simp add: API_request_def API_respond_def raise_for_status_def resp_json_def
        APIError_init_def APIError_code_def)

theorem request_domain_error_witness:
  "API_request
     (stub_api \<lparr>status_code = 422,
        json_body = Some (JObj [(''code'', JInt 40110000),
                                (''message'', JStr ''insufficient buying power'')])\<rparr>)
     ''POST'' ''/api/v1/accounts/acct123/orders'' JNull
     = Inl (APIError (JStr ''insufficient buying power'')
              (JObj [(''code'', JInt 40110000),
                     (''message'', JStr ''insufficient buying power'')])) \<and>
   APIError_code (APIError (JStr ''insufficient buying power'')
              (JObj [(''code'', JInt 40110000),
                     (''message'', JStr ''insufficient buying power'')]))
     = Inr (JInt 40110000)"
  using request_domain_error
          [of "stub_api \<lparr>status_code = 422,
                 json_body = Some (JObj [(''code'', JInt 40110000),
                                         (''message'', JStr ''insufficient buying power'')])\<rparr>"
              "''POST''" "''/api/v1/accounts/acct123/orders''" JNull
              "\<lparr>status_code = 422,
                 json_body = Some (JObj [(''code'', JInt 40110000),
                                         (''message'', JStr ''insufficient buying power'')])\<rparr>"
              "[(''code'', JInt 40110000), (''message'', JStr ''insufficient buying power'')]"
              "JInt 40110000" "JStr ''insufficient buying power''"]
  by (simp add: stub_api_def)

text \<open>
  A body with \<^verbatim>\<open>code\<close> and without \<^verbatim>\<open>message\<close>: the constructor of
  \<^verbatim>\<open>APIError\<close> reads \<^verbatim>\<open>error['message']\<close> and the call fails with
  \<^verbatim>\<open>KeyError\<close>.
\<close>

theorem request_domain_error_counterexample:
  "API_request
     (stub_api \<lparr>status_code = 422, json_body = Some (JObj [(''code'', JInt 40110000)])\<rparr>)
     ''POST'' ''/api/v1/accounts/acct123/orders'' JNull
     = Inl (KeyError ''message'')"
  by (simp add: API_request_stub API_respond_def raise_for_status_def resp_json_def
        APIError_init_def)

section \<open>Entity: field access\<close>

lemma Entity_getattr_present:
  assumes "Entity_obj self = JObj kvs" and "map_of kvs k = Some val"
  shows "Entity_getattr parse self k =
           (if suffix ''_at'' k then
              (case ISO8601YMD_match val of
                 Inl e \<Rightarrow> Inl e
               | Inr True \<Rightarrow>
                   (case val of
                      JStr s \<Rightarrow> (case parse s of Inl e \<Rightarrow> Inl e | Inr t \<Rightarrow> Inr (Timestamp t))
                    | _ \<Rightarrow> Inl TypeError)
               | Inr False \<Rightarrow> Inr (Raw val))
            else Inr (Raw val))"
  using assms by (simp add: Entity_getattr_def)

text \<open>
  The pattern matches the strings that start with four digits, a hyphen, two digits, a
  hyphen, two digits and the letter \<^verbatim>\<open>T\<close>.
\<close>

lemma re_match_Digit:
  "re_match (Digit # as) s \<longleftrightarrow> (\<exists>c cs. s = c # cs \<and> is_digit c \<and> re_match as cs)"
  by (cases s) auto

lemma re_match_Lit:
  "re_match (Lit l # as) s \<longleftrightarrow> (\<exists>cs. s = l # cs \<and> re_match as cs)"
  by (cases s) auto

lemma re_match_ISO8601YMD:
  "re_match ISO8601YMD s \<longleftrightarrow>
     (\<exists>y1 y2 y3 y4 m1 m2 d1 d2 rest.
        s = [y1, y2, y3, y4, CHR ''-'', m1, m2, CHR ''-'', d1, d2, CHR ''T''] @ rest \<and>
        is_digit y1 \<and> is_digit y2 \<and> is_digit y3 \<and> is_digit y4 \<and>
        is_digit m1 \<and> is_digit m2 \<and> is_digit d1 \<and> is_digit d2)"
  unfolding ISO8601YMD_def
  by (simp only: re_match_Digit re_match_Lit re_match.simps(1)) auto

text \<open>
  A field whose name ends with \<^verbatim>\<open>_at\<close> and whose value is a string that matches
  the pattern is handed to the parser; the access returns what the parser returns.
\<close>

lemma Entity_getattr_timestamp:
  assumes "Entity_obj self = JObj kvs" and "map_of kvs k = Some (JStr s)"
    and "suffix ''_at'' k" and "re_match ISO8601YMD s"
  shows "Entity_getattr parse self k =
           (case parse s of Inl e \<Rightarrow> Inl e | Inr t \<Rightarrow> Inr (Timestamp t))"
  using assms by (simp add: Entity_getattr_present)

text \<open>A string that does not match the pattern is returned as it is.\<close>

lemma Entity_getattr_unmatched_string:
  assumes "Entity_obj self = JObj kvs" and "map_of kvs k = Some (JStr s)"
    and "\<not> re_match ISO8601YMD s"
  shows "Entity_getattr parse self k = Inr (Raw (JStr s))"
  using assms by (simp add: Entity_getattr_present)

text \<open>A field whose name does not end with \<^verbatim>\<open>_at\<close> is returned as it is.\<close>

lemma Entity_getattr_plain:
  assumes "Entity_obj self = JObj kvs" and "map_of kvs k = Some val"
    and "\<not> suffix ''_at'' k"
  shows "Entity_getattr parse self k = Inr (Raw val)"
  using assms by (simp add: Entity_getattr_present)

text \<open>
  A field whose name ends with \<^verbatim>\<open>_at\<close> and whose value is not a string: line 73
  calls \<^verbatim>\<open>ISO8601YMD.match\<close> on it, which raises \<^verbatim>\<open>TypeError\<close>.
\<close>

lemma Entity_getattr_at_not_string:
  assumes "Entity_obj self = JObj kvs" and "map_of kvs k = Some val"
    and "suffix ''_at'' k" and "\<forall>s. val \<noteq> JStr s"
  shows "Entity_getattr parse self k = Inl TypeError"
  using assms by (cases val) (simp_all add: Entity_getattr_present)

text \<open>
  C3. On the record \<^verbatim>\<open>{"filled_at": null}\<close> the access to \<^verbatim>\<open>filled_at\<close>
  fails with \<^verbatim>\<open>TypeError\<close>, and so does the access to a number stored under a name
  that ends with \<^verbatim>\<open>_at\<close>; the value is not returned.
\<close>

theorem getattr_null_timestamp_fails:
  "Entity_getattr stub_parse (Order (JObj [(''filled_at'', JNull)])) ''filled_at''
     = Inl TypeError \<and>
   Entity_getattr stub_parse (Order (JObj [(''filled_at'', JInt 1514764800)])) ''filled_at''
     = Inl TypeError"
  by (simp add: Entity_getattr_def Order_def suffix_to_prefix)

text \<open>
  C4. A name that is absent from the record, that Python's base class \<^verbatim>\<open>object\<close>
  does not define and that the proxy \<^verbatim>\<open>super()\<close> does not have: \<^verbatim>\<open>__getattr__\<close>
  fails with \<^verbatim>\<open>AttributeError\<close> carrying that name; and when the name is none of
  the attributes of the wrapper either, so does the attribute access as a whole.
\<close>

theorem getattr_absent_field:
  assumes "Entity_obj self = JObj kvs" and "map_of kvs k = None"
    and "k \<notin> set object_attrs" and "k \<notin> set super_attrs"
  shows "Entity_getattr parse self k = Inl (AttributeError k) \<and>
         (k \<noteq> ''_obj'' \<and> k \<notin> set Entity_methods \<and> k \<notin> set class_attrs \<longrightarrow>
            Entity_getattribute parse self k = Inl (AttributeError k))"
  using assms
  by (simp add: Entity_getattr_def super_getattr_def Entity_getattribute_def Entity_lookup_def)

theorem getattr_absent_field_witness:
  "Entity_getattr stub_parse (Order (JObj [(''id'', JStr ''o1'')])) ''price''
     = Inl (AttributeError ''price'') \<and>
   Entity_getattribute stub_parse (Order (JObj [(''id'', JStr ''o1'')])) ''price''
     = Inl (AttributeError ''price'')"
  using getattr_absent_field
          [of "Order (JObj [(''id'', JStr ''o1'')])" "[(''id'', JStr ''o1'')]" "''price''"
              stub_parse]
  by (simp add: Order_def object_attrs_def super_attrs_def Entity_methods_def class_attrs_def)

text \<open>
  On the empty record the names \<^verbatim>\<open>__class__\<close> and \<^verbatim>\<open>_obj\<close> are absent, and
  neither access fails: \<^verbatim>\<open>getattr(super(), '__class__')\<close> returns an attribute, the
  lookup on the instance finds \<^verbatim>\<open>__class__\<close> and \<^verbatim>\<open>_obj\<close> before
  \<^verbatim>\<open>__getattr__\<close> is called.
\<close>

theorem getattr_absent_field_counterexample:
  "Entity_getattr stub_parse (Order (JObj [])) ''__class__'' = Inr (Inherited ''__class__'') \<and>
   Entity_getattribute stub_parse (Order (JObj [])) ''__class__''
     = Inr (Inherited ''__class__'') \<and>
   Entity_getattribute stub_parse (Order (JObj [])) ''_obj'' = Inr (Instance (JObj []))"
  by (simp add: Entity_getattr_def super_getattr_def Entity_getattribute_def Entity_lookup_def
        Order_def object_attrs_def Entity_methods_def class_attrs_def)

text \<open>
  C10. The attributes of the wrapper win over the fields of the record: \<^verbatim>\<open>_obj\<close>
  on every entity, \<^verbatim>\<open>_api\<close>, \<^verbatim>\<open>_account_id\<close> and the methods on an account
  resolve to the attribute of the wrapper whatever the record holds, so a field of
  such a name is never what the attribute access returns.
\<close>

theorem wrapper_attributes_shadow_fields:
  "Entity_getattribute parse e ''_obj'' = Inr (Instance (Entity_obj e)) \<and>
   (k \<in> set Entity_methods \<longrightarrow> Entity_getattribute parse e k = Inr (Method k)) \<and>
   Account_getattribute parse self ''_obj'' = Inr (Instance (Entity_obj self)) \<and>
   Account_getattribute parse self ''_api'' = Inr (ApiRef (Account_api self)) \<and>
   Account_getattribute parse self ''_account_id'' = Inr (Instance (Account_id self)) \<and>
   (k' \<in> set Account_methods \<longrightarrow> Account_getattribute parse self k' = Inr (Method k'))"
  by (auto simp: Entity_getattribute_def Entity_lookup_def Account_getattribute_def
        Account_lookup_def Entity_methods_def Account_methods_def)

theorem wrapper_attributes_shadow_fields_witness:
  "''__init__'' \<in> set Entity_methods \<and>
   Entity_getattribute stub_parse (Order (JObj [(''__init__'', JInt 1), (''_obj'', JInt 2)]))
       ''__init__'' = Inr (Method ''__init__'') \<and>
   Entity_getattribute stub_parse (Order (JObj [(''__init__'', JInt 1), (''_obj'', JInt 2)]))
       ''_obj'' = Inr (Instance (JObj [(''__init__'', JInt 1), (''_obj'', JInt 2)])) \<and>
   ''get'' \<in> set Account_methods \<and>
   Account_getattribute stub_parse shadowed_account ''get'' = Inr (Method ''get'') \<and>
   Account_getattribute stub_parse shadowed_account ''_obj''
     = Inr (Instance (JObj [(''id'', JStr ''a1''), (''get'', JStr ''x''), (''_obj'', JInt 1)])) \<and>
   Entity_getattr stub_parse shadowed_account ''get'' = Inr (Raw (JStr ''x''))"
  using wrapper_attributes_shadow_fields
          [of stub_parse "Order (JObj [(''__init__'', JInt 1), (''_obj'', JInt 2)])"
              "''__init__''" shadowed_account "''get''"]
  by (simp add: Entity_methods_def Account_methods_def Order_def shadowed_account_def
        Entity_getattr_def suffix_to_prefix)

section \<open>Resource client: paths and bodies\<close>

lemma API_request_unfold:
  "API_request self method path data =
     (case API_session self (API_prepare self method path data) of
        Inl e \<Rightarrow> Inl e
      | Inr resp \<Rightarrow> API_respond resp)"
  by (simp add: API_request_def)

lemma echo_respond:
  "API_respond \<lparr>status_code = 200, json_body = Some j\<rparr> = Inr j"
  by (simp add: API_respond_def raise_for_status_def resp_json_def)

text \<open>
  C7. An account built from a record reads its identifier from the field \<^verbatim>\<open>id\<close>,
  and its scoped path is \<^verbatim>\<open>/api/v\<close>, the version, \<^verbatim>\<open>/accounts/\<close>, the
  identifier and the sub-path, in this order; with the version left out it starts with
  \<^verbatim>\<open>/api/v1/accounts/\<close>.
\<close>

theorem fullpath_grammar:
  assumes "Account_init obj api = Inr self"
  shows "py_getitem obj ''id'' = Inr (Account_id self) \<and>
         Account_fullpath self (JStr subpath) (Some (JStr version))
           = ''/api/v'' @ version @ ''/accounts/'' @ py_str (Account_id self) @ subpath \<and>
         Account_fullpath self (JStr subpath) None
           = ''/api/v1/accounts/'' @ py_str (Account_id self) @ subpath"
  using assms
  by (auto simp: Account_init_def Account_fullpath_def split: sum.splits)

theorem fullpath_grammar_witness:
  "Account_init (JObj [(''id'', JStr ''acct123'')]) echo_api = Inr echo_account \<and>
   Account_fullpath echo_account (JStr ''/orders'') None = ''/api/v1/accounts/acct123/orders''"
  using fullpath_grammar
          [of "JObj [(''id'', JStr ''acct123'')]" echo_api echo_account "''/orders''" "''1''"]
  by (simp add: Account_init_def echo_account_def)

text \<open>
  C6. \<^verbatim>\<open>create_order\<close> issues one call: a \<^verbatim>\<open>POST\<close> to the scoped path of
  \<^verbatim>\<open>/orders\<close> whose \<^verbatim>\<open>json\<close> option is the dict of lines 110-119. That dict
  holds the keys \<^verbatim>\<open>limit_price\<close>, \<^verbatim>\<open>stop_price\<close> and \<^verbatim>\<open>client_order_id\<close>
  in every case, with the value \<^verbatim>\<open>None\<close> for each argument that was left out.
\<close>

theorem create_order_sends_nulls:
  "create_order self assert_id shares side type timeinforce limit_price stop_price
       client_order_id =
     (case API_session (Account_api self)
             \<lparr>req_method = ''POST'',
              req_url = API_base_url (Account_api self)
                          @ Account_fullpath self (JStr ''/orders'') None,
              req_opts =
                [''headers'' \<mapsto> Headers [(''X-API-KEY'', API_key (Account_api self))],
                 ''json'' \<mapsto> Data (create_order_data assert_id shares side type timeinforce
                                       limit_price stop_price client_order_id)]\<rparr> of
        Inl e \<Rightarrow> Inl e
      | Inr resp \<Rightarrow> (case API_respond resp of Inl e \<Rightarrow> Inl e | Inr r \<Rightarrow> Inr (Order r))) \<and>
   (limit_price = None \<longrightarrow>
      py_getitem (create_order_data assert_id shares side type timeinforce limit_price
                    stop_price client_order_id) ''limit_price'' = Inr JNull) \<and>
   (stop_price = None \<longrightarrow>
      py_getitem (create_order_data assert_id shares side type timeinforce limit_price
                    stop_price client_order_id) ''stop_price'' = Inr JNull) \<and>
   (client_order_id = None \<longrightarrow>
      py_getitem (create_order_data assert_id shares side type timeinforce limit_price
                    stop_price client_order_id) ''client_order_id'' = Inr JNull)"
  by (simp add: create_order_def Account_post_def API_post_def API_request_unfold
        API_prepare_other upper_POST create_order_data_def split: sum.splits)

theorem create_order_sends_nulls_witness:
  "create_order echo_account (JStr ''AAPL'') (JInt 10) (JStr ''buy'') (JStr ''limit'')
       (JStr ''day'') None None None
     = Inr (Order (JObj
         [(''method'', JStr ''POST''),
          (''url'', JStr ''https://api.alpaca.markets/api/v1/accounts/acct123/orders''),
          (''params'', JStr ''absent''),
          (''json'', JObj [(''assert_id'', JStr ''AAPL''), (''shares'', JInt 10),
                           (''side'', JStr ''buy''), (''type'', JStr ''limit''),
                           (''timeinforce'', JStr ''day''), (''limit_price'', JNull),
                           (''stop_price'', JNull), (''client_order_id'', JNull)])]))"
  using create_order_sends_nulls
          [of echo_account "JStr ''AAPL''" "JInt 10" "JStr ''buy''" "JStr ''limit''"
              "JStr ''day''" None None None]
  by (simp add: echo_account_def echo_api_def echo_session_def echo_opt_def echo_respond
        Account_fullpath_def create_order_data_def)

text \<open>
  Every operation of an account other than \<^verbatim>\<open>get_order\<close> addresses its resource
  through \<^verbatim>\<open>_fullpath\<close>.
\<close>

lemma sibling_paths_scoped:
  "list_orders self =
     (case API_get (Account_api self) (Account_fullpath self (JStr ''/orders'') None) JNull of
        Inl e \<Rightarrow> Inl e
      | Inr resp \<Rightarrow>
          (case py_iter resp of
             Inl e \<Rightarrow> Inl e
           | Inr os \<Rightarrow> comprehension (\<lambda>x. Inr (Order x)) os))"
  "create_order self assert_id shares side type timeinforce limit_price stop_price
       client_order_id =
     (case API_post (Account_api self) (Account_fullpath self (JStr ''/orders'') None)
             (create_order_data assert_id shares side type timeinforce limit_price stop_price
                client_order_id) of
        Inl e \<Rightarrow> Inl e
      | Inr resp \<Rightarrow> Inr (Order resp))"
  "get_order_by_client_order_id self client_id =
     (case API_get (Account_api self) (Account_fullpath self (JStr ''/orders'') None)
             (JObj [(''client_order_id'', client_id)]) of
        Inl e \<Rightarrow> Inl e
      | Inr resp \<Rightarrow> Inr (Order resp))"
  "delete_order self order_id =
     (case API_delete (Account_api self)
             (Account_fullpath self (JStr (''/orders/'' @ py_str order_id)) None) JNull of
        Inl e \<Rightarrow> Inl e
      | Inr resp \<Rightarrow> Inr ())"
  "list_positions self =
     (case API_get (Account_api self) (Account_fullpath self (JStr ''/positions'') None) JNull of
        Inl e \<Rightarrow> Inl e
      | Inr resp \<Rightarrow>
          (case py_iter resp of
             Inl e \<Rightarrow> Inl e
           | Inr os \<Rightarrow> comprehension (\<lambda>x. Inr (Position x)) os))"
  "get_position self asset_id =
     (case API_get (Account_api self)
             (Account_fullpath self (JStr (''/positions/'' @ py_str asset_id)) None) JNull of
        Inl e \<Rightarrow> Inl e
      | Inr resp \<Rightarrow> Inr (Position resp))"
  by (simp_all add: list_orders_def create_order_def get_order_by_client_order_id_def
        delete_order_def list_positions_def get_position_def Account_get_def Account_post_def
        Account_delete_def)

text \<open>
  C8. \<^verbatim>\<open>get_order\<close> issues one call: a \<^verbatim>\<open>GET\<close> to \<^verbatim>\<open>/api/v1/\<close>, the
  account identifier, \<^verbatim>\<open>/orders/\<close> and the order identifier. When the call
  succeeds the result is one entity of class \<^verbatim>\<open>Order\<close> whose record is the decoded
  response, unchanged; when it fails the error is passed on. The sibling
  \<^verbatim>\<open>delete_order\<close> addresses the same order through the scoped path, which starts
  with \<^verbatim>\<open>/api/v1/accounts/\<close>; the two paths are never equal.
\<close>

theorem get_order_path_omits_accounts:
  "get_order self order_id =
     (case API_session (Account_api self)
             \<lparr>req_method = ''GET'',
              req_url = API_base_url (Account_api self)
                          @ ''/api/v1/'' @ py_str (Account_id self) @ ''/orders/''
                          @ py_str order_id,
              req_opts =
                [''headers'' \<mapsto> Headers [(''X-API-KEY'', API_key (Account_api self))],
                 ''params'' \<mapsto> Data JNull]\<rparr> of
        Inl e \<Rightarrow> Inl e
      | Inr resp \<Rightarrow>
          (case API_respond resp of
             Inl e \<Rightarrow> Inl e
           | Inr r \<Rightarrow> Inr \<lparr>Entity_class = ''Order'', Entity_obj = r\<rparr>)) \<and>
   get_order self order_id =
     (case API_request (Account_api self) ''GET'' (get_order_path self order_id) JNull of
        Inl e \<Rightarrow> Inl e
      | Inr r \<Rightarrow> Inr \<lparr>Entity_class = ''Order'', Entity_obj = r\<rparr>) \<and>
   get_order_path self order_id
     = ''/api/v1/'' @ py_str (Account_id self) @ ''/orders/'' @ py_str order_id \<and>
   delete_order self order_id =
     (case API_delete (Account_api self)
             (Account_fullpath self (JStr (''/orders/'' @ py_str order_id)) None) JNull of
        Inl e \<Rightarrow> Inl e
      | Inr resp \<Rightarrow> Inr ()) \<and>
   Account_fullpath self (JStr (''/orders/'' @ py_str order_id)) None
     = ''/api/v1/accounts/'' @ py_str (Account_id self) @ ''/orders/'' @ py_str order_id \<and>
   get_order_path self order_id
     \<noteq> Account_fullpath self (JStr (''/orders/'' @ py_str order_id)) None"
proof -
  have sent: "get_order self order_id =
     (case API_session (Account_api self)
             \<lparr>req_method = ''GET'',
              req_url = API_base_url (Account_api self)
                          @ ''/api/v1/'' @ py_str (Account_id self) @ ''/orders/''
                          @ py_str order_id,
              req_opts =
                [''headers'' \<mapsto> Headers [(''X-API-KEY'', API_key (Account_api self))],
                 ''params'' \<mapsto> Data JNull]\<rparr> of
        Inl e \<Rightarrow> Inl e
      | Inr resp \<Rightarrow>
          (case API_respond resp of
             Inl e \<Rightarrow> Inl e
           | Inr r \<Rightarrow> Inr \<lparr>Entity_class = ''Order'', Entity_obj = r\<rparr>))"
    by (simp add: get_order_def get_order_path_def API_get_def API_request_unfold
          API_prepare_GET upper_GET Order_def split: sum.splits)
  have wrapped: "get_order self order_id =
     (case API_request (Account_api self) ''GET'' (get_order_path self order_id) JNull of
        Inl e \<Rightarrow> Inl e
      | Inr r \<Rightarrow> Inr \<lparr>Entity_class = ''Order'', Entity_obj = r\<rparr>)"
    by (simp add: get_order_def API_get_def Order_def split: sum.splits)
  have path: "get_order_path self order_id
     = ''/api/v1/'' @ py_str (Account_id self) @ ''/orders/'' @ py_str order_id"
    by (simp add: get_order_path_def)
  have sibling: "delete_order self order_id =
     (case API_delete (Account_api self)
             (Account_fullpath self (JStr (''/orders/'' @ py_str order_id)) None) JNull of
        Inl e \<Rightarrow> Inl e
      | Inr resp \<Rightarrow> Inr ())"
    by (rule sibling_paths_scoped(4))
  have scoped: "Account_fullpath self (JStr (''/orders/'' @ py_str order_id)) None
     = ''/api/v1/accounts/'' @ py_str (Account_id self) @ ''/orders/'' @ py_str order_id"
    by (simp add: Account_fullpath_def)
  have "length (get_order_path self order_id)
          \<noteq> length (Account_fullpath self (JStr (''/orders/'' @ py_str order_id)) None)"
    by (simp add: get_order_path_def Account_fullpath_def)
  then have differ: "get_order_path self order_id
     \<noteq> Account_fullpath self (JStr (''/orders/'' @ py_str order_id)) None"
    by auto
  show ?thesis
    by (intro conjI sent wrapped path sibling scoped differ)
qed

theorem get_order_path_omits_accounts_witness:
  "get_order echo_account (JStr ''o42'')
     = Inr \<lparr>Entity_class = ''Order'',
            Entity_obj = JObj
              [(''method'', JStr ''GET''),
               (''url'', JStr ''https://api.alpaca.markets/api/v1/acct123/orders/o42''),
               (''params'', JNull),
               (''json'', JStr ''absent'')]\<rparr> \<and>
   get_order_path echo_account (JStr ''o42'') = ''/api/v1/acct123/orders/o42'' \<and>
   Account_fullpath echo_account (JStr (''/orders/'' @ py_str (JStr ''o42''))) None
     = ''/api/v1/accounts/acct123/orders/o42''"
  using get_order_path_omits_accounts [of echo_account "JStr ''o42''"]
  by (simp add: echo_account_def echo_api_def echo_session_def echo_opt_def echo_respond)

section \<open>Resource client: listing accounts\<close>

lemma comprehension_Account_init:
  "list_all has_id xs \<Longrightarrow>
   \<exists>accts. comprehension (\<lambda>x. Account_init x api) xs = Inr accts \<and>
           map Entity_obj accts = xs \<and>
           (\<forall>a \<in> set accts. Entity_class a = ''Account'' \<and> Account_api a = api \<and>
                py_getitem (Entity_obj a) ''id'' = Inr (Account_id a))"
proof (induction xs)
  case Nil
  then show ?case by simp
next
  case (Cons x xs)
  from Cons.prems have hx: "has_id x" and hxs: "list_all has_id xs" by simp_all
  from hx obtain i where i: "py_getitem x ''id'' = Inr i"
    by (auto simp: has_id_def split: sum.splits)
  from Cons.IH [OF hxs] obtain accts where
    accts: "comprehension (\<lambda>x. Account_init x api) xs = Inr accts"
      "map Entity_obj accts = xs"
      "\<forall>a \<in> set accts. Entity_class a = ''Account'' \<and> Account_api a = api \<and>
           py_getitem (Entity_obj a) ''id'' = Inr (Account_id a)"
    by blast
  let ?a = "\<lparr>Entity_class = ''Account'', Entity_obj = x, Account_api = api, Account_id = i\<rparr>"
  have run: "comprehension (\<lambda>x. Account_init x api) (x # xs) = Inr (?a # accts)"
    using i accts(1) by (simp add: Account_init_def)
  have objs: "map Entity_obj (?a # accts) = x # xs"
    using accts(2) by simp
  have each: "\<forall>a \<in> set (?a # accts). Entity_class a = ''Account'' \<and> Account_api a = api \<and>
                   py_getitem (Entity_obj a) ''id'' = Inr (Account_id a)"
    using i accts(3) by simp
  show ?case
    by (rule exI [of _ "?a # accts"]) (intro conjI run objs each)
qed

text \<open>
  C9. When the session answers the call of \<^verbatim>\<open>list_accounts\<close> with a status that is
  no error and a body that decodes to an array whose elements all are objects with an
  \<^verbatim>\<open>id\<close>, the result is a list of accounts whose records are the elements of the
  array, one for one and in the order of the array; each account belongs to this client
  and holds the \<^verbatim>\<open>id\<close> of its record.
\<close>

theorem list_accounts_in_order:
  assumes "API_session self (API_prepare self ''GET'' ''/api/v1/accounts'' JNull) = Inr resp"
    and "\<not> (400 \<le> status_code resp \<and> status_code resp < 600)"
    and "json_body resp = Some (JArr xs)"
    and "list_all has_id xs"
  shows "\<exists>accts. API_list_accounts self = Inr accts \<and>
           length accts = length xs \<and>
           map Entity_obj accts = xs \<and>
           (\<forall>a \<in> set accts. Entity_class a = ''Account'' \<and> Account_api a = self \<and>
                py_getitem (Entity_obj a) ''id'' = Inr (Account_id a))"
proof -
  have "API_request self ''GET'' ''/api/v1/accounts'' JNull = Inr (JArr xs)"
    using assms(1-3)
    by (auto simp: API_request_def API_respond_def raise_for_status_def resp_json_def)
  then have run: "API_list_accounts self = comprehension (\<lambda>x. Account_init x self) xs"
    by (simp add: API_list_accounts_def)
  from comprehension_Account_init [OF assms(4), of self] obtain accts where
    accts: "comprehension (\<lambda>x. Account_init x self) xs = Inr accts"
      "map Entity_obj accts = xs"
      "\<forall>a \<in> set accts. Entity_class a = ''Account'' \<and> Account_api a = self \<and>
           py_getitem (Entity_obj a) ''id'' = Inr (Account_id a)"
    by blast
  from accts(2) have "length accts = length xs"
    by (metis length_map)
  with run accts show ?thesis by auto
qed

theorem list_accounts_in_order_witness:
  "list_all has_id [JObj [(''id'', JStr ''a1'')], JObj [(''id'', JStr ''a2'')]] \<and>
   API_list_accounts
     (stub_api \<lparr>status_code = 200,
        json_body = Some (JArr [JObj [(''id'', JStr ''a1'')], JObj [(''id'', JStr ''a2'')]])\<rparr>)
     = Inr [\<lparr>Entity_class = ''Account'', Entity_obj = JObj [(''id'', JStr ''a1'')],
             Account_api = stub_api \<lparr>status_code = 200,
               json_body = Some (JArr [JObj [(''id'', JStr ''a1'')],
                                       JObj [(''id'', JStr ''a2'')]])\<rparr>,
             Account_id = JStr ''a1''\<rparr>,
            \<lparr>Entity_class = ''Account'', Entity_obj = JObj [(''id'', JStr ''a2'')],
             Account_api = stub_api \<lparr>status_code = 200,
               json_body = Some (JArr [JObj [(''id'', JStr ''a1'')],
                                       JObj [(''id'', JStr ''a2'')]])\<rparr>,
             Account_id = JStr ''a2''\<rparr>] \<and>
   Account_getattribute stub_parse
     \<lparr>Entity_class = ''Account'', Entity_obj = JObj [(''id'', JStr ''a1'')],
      Account_api = echo_api, Account_id = JStr ''a1''\<rparr> ''id'' = Inr (Raw (JStr ''a1''))"
  using list_accounts_in_order
          [of "stub_api \<lparr>status_code = 200,
                 json_body = Some (JArr [JObj [(''id'', JStr ''a1'')],
                                         JObj [(''id'', JStr ''a2'')]])\<rparr>"
              "\<lparr>status_code = 200,
                 json_body = Some (JArr [JObj [(''id'', JStr ''a1'')],
                                         JObj [(''id'', JStr ''a2'')]])\<rparr>"
              "[JObj [(''id'', JStr ''a1'')], JObj [(''id'', JStr ''a2'')]]"]
  by (simp add: has_id_def API_list_accounts_def API_request_stub echo_respond
        Account_init_def Account_getattribute_def Account_lookup_def Entity_lookup_def
        Account_methods_def Entity_methods_def class_attrs_def object_attrs_def
        Entity_getattr_def suffix_to_prefix)

text \<open>
  An array with an element that has no \<^verbatim>\<open>id\<close>: the constructor of
  \<^verbatim>\<open>Account\<close> reads \<^verbatim>\<open>obj['id']\<close> and \<^verbatim>\<open>list_accounts\<close> fails with
  \<^verbatim>\<open>KeyError\<close>.
\<close>

theorem list_accounts_in_order_counterexample:
  "API_list_accounts
     (stub_api \<lparr>status_code = 200, json_body = Some (JArr [JObj [(''name'', JStr ''a1'')]])\<rparr>)
     = Inl (KeyError ''id'')"
  by (simp add: API_list_accounts_def API_request_stub echo_respond Account_init_def)

end
